theory Spec2Isabelle
  imports Complex_Main "HOL-Library.Word" "HOL-Library.Sublist"
begin

section \<open>JavaScript strings\<close>

text \<open>
  A JavaScript string is a sequence of UTF-16 code units; \<open>.length\<close> counts code units.
  A property that is missing from an object reads as \<open>undefined\<close>: a form field is a
  \<open>jsstring option\<close>, with \<open>None\<close> for \<open>undefined\<close>.
\<close>

type_synonym jschar = "16 word"
type_synonym jsstring = "jschar list"

definition js :: "string \<Rightarrow> jsstring" where
  "js s = map (\<lambda>c. of_char c) s"

text \<open>\<^verbatim>\<open>(x || '')\<close>: \<open>undefined\<close> and the empty string are both falsy.\<close>

definition or_empty :: "jsstring option \<Rightarrow> jsstring" where
  "or_empty x = (case x of None \<Rightarrow> [] | Some s \<Rightarrow> s)"

text \<open>\<^verbatim>\<open>!x\<close> on a string that may be missing.\<close>

definition falsy :: "jsstring option \<Rightarrow> bool" where
  "falsy x = (case x of None \<Rightarrow> True | Some s \<Rightarrow> s = [])"

text \<open>
  ECMAScript's WhiteSpace and LineTerminator code points. \<^verbatim>\<open>String.prototype.trim\<close>
  strips both classes, the regular expression class \<^verbatim>\<open>\s\<close> matches both, and
  \<^verbatim>\<open>parseInt\<close> skips both at the start of its input.
\<close>

definition isWhiteSpace :: "jschar \<Rightarrow> bool" where
  "isWhiteSpace c \<longleftrightarrow>
     c = 0x0009 \<or> c = 0x000B \<or> c = 0x000C \<or> c = 0x0020 \<or> c = 0x00A0 \<or> c = 0x1680 \<or>
     (0x2000 \<le> c \<and> c \<le> 0x200A) \<or> c = 0x202F \<or> c = 0x205F \<or> c = 0x3000 \<or> c = 0xFEFF"

definition isLineTerminator :: "jschar \<Rightarrow> bool" where
  "isLineTerminator c \<longleftrightarrow> c = 0x000A \<or> c = 0x000D \<or> c = 0x2028 \<or> c = 0x2029"

definition is_space :: "jschar \<Rightarrow> bool" where
  "is_space c \<longleftrightarrow> isWhiteSpace c \<or> isLineTerminator c"

definition isDecimalDigit :: "jschar \<Rightarrow> bool" where
  "isDecimalDigit c \<longleftrightarrow> 0x30 \<le> c \<and> c \<le> 0x39"

definition trimStart :: "jsstring \<Rightarrow> jsstring" where
  "trimStart s = dropWhile is_space s"

definition trimEnd :: "jsstring \<Rightarrow> jsstring" where
  "trimEnd s = rev (dropWhile is_space (rev s))"

definition trim :: "jsstring \<Rightarrow> jsstring" where
  "trim s = trimEnd (trimStart s)"

text \<open>
  \<^verbatim>\<open>s.replace(/\s+/g, '')\<close>: scanning from the left, every maximal run of \<^verbatim>\<open>\s\<close>
  characters is replaced by the empty string.
\<close>

function replace_space_runs :: "jsstring \<Rightarrow> jsstring" where
  "replace_space_runs [] = []"
| "replace_space_runs (c # cs) =
     (if is_space c then replace_space_runs (dropWhile is_space cs)
      else c # replace_space_runs cs)"
  by pat_completeness auto
termination
  by (relation "measure length") (auto simp: less_Suc_eq_le length_dropWhile_le)

text \<open>Decimal rendering of a number that is an integer, as a template literal does it.\<close>

function digits_of :: "nat \<Rightarrow> jsstring" where
  "digits_of n =
     (if n < 10 then [of_nat (48 + n)] else digits_of (n div 10) @ [of_nat (48 + n mod 10)])"
  by pat_completeness auto
termination
  by (relation "measure (\<lambda>n. n)") auto

declare digits_of.simps [simp del]

definition toString :: "int \<Rightarrow> jsstring" where
  "toString i = (if i < 0 then js ''-'' @ digits_of (nat (- i)) else digits_of (nat i))"

section \<open>Regular expressions\<close>

text \<open>
  The two patterns of the configuration, \<^verbatim>\<open>/^[6-9]\d{9}$/\<close> and \<^verbatim>\<open>/^\d{6}$/\<close>, use a
  character range, the class \<^verbatim>\<open>\d\<close> (the ten ASCII digits), a counted repetition and
  concatenation, between the anchors \<^verbatim>\<open>^\<close> and \<^verbatim>\<open>$\<close>. Neither has a flag, so \<^verbatim>\<open>$\<close>
  matches at the end of the input only. \<open>rmatch r s\<close> is the rest of \<open>s\<close> after a match
  of \<open>r\<close> at its start; these operators never backtrack.
\<close>

datatype regex =
    CharRange jschar jschar
  | DigitClass
  | Repeat regex nat
  | Concat regex regex

fun weight :: "regex \<Rightarrow> nat" where
  "weight (CharRange lo hi) = 1"
| "weight DigitClass = 1"
| "weight (Repeat r n) = Suc (weight r + n)"
| "weight (Concat r1 r2) = Suc (weight r1 + weight r2)"

function rmatch :: "regex \<Rightarrow> jsstring \<Rightarrow> jsstring option" where
  "rmatch (CharRange lo hi) s =
     (case s of [] \<Rightarrow> None | c # cs \<Rightarrow> if lo \<le> c \<and> c \<le> hi then Some cs else None)"
| "rmatch DigitClass s =
     (case s of [] \<Rightarrow> None | c # cs \<Rightarrow> if isDecimalDigit c then Some cs else None)"
| "rmatch (Repeat r 0) s = Some s"
| "rmatch (Repeat r (Suc n)) s =
     (case rmatch r s of None \<Rightarrow> None | Some s' \<Rightarrow> rmatch (Repeat r n) s')"
| "rmatch (Concat r1 r2) s =
     (case rmatch r1 s of None \<Rightarrow> None | Some s' \<Rightarrow> rmatch r2 s')"
  by pat_completeness auto
termination
  by (relation "measure (\<lambda>(r, s). weight r)") auto

text \<open>\<^verbatim>\<open>/^r$/.test(s)\<close>\<close>

definition test_anchored :: "regex \<Rightarrow> jsstring \<Rightarrow> bool" where
  "test_anchored r s \<longleftrightarrow> rmatch r s = Some []"

section \<open>Configuration\<close>

definition MIN_DAYS :: int where "MIN_DAYS = 2"
definition MAX_DAYS :: int where "MAX_DAYS = 5"
definition WEEKEND_DELAY :: int where "WEEKEND_DELAY = 1"

definition PHONE_REGEX :: regex where
  "PHONE_REGEX = Concat (CharRange 0x36 0x39) (Repeat DigitClass 9)"

definition PIN_REGEX :: regex where
  "PIN_REGEX = Repeat DigitClass 6"

definition MIN_NAME_LENGTH :: nat where "MIN_NAME_LENGTH = 2"
definition MIN_ADDRESS_LENGTH :: nat where "MIN_ADDRESS_LENGTH = 10"

text \<open>The rupee sign, U+20B9.\<close>

definition SYMBOL :: jsstring where "SYMBOL = [0x20B9]"

section \<open>Validator\<close>

record check =
  isValid :: bool

record validation = check +
  message :: jsstring

text \<open>The key \<^verbatim>\<open>value\<close> of the phone result is the field \<open>value'\<close>.\<close>

record phone_validation = validation +
  value' :: jsstring

definition validateName :: "jsstring option \<Rightarrow> validation" where
  "validateName name =
     (let trimmedName = trim (or_empty name);
          ok = (length trimmedName \<ge> MIN_NAME_LENGTH)
      in \<lparr>isValid = ok,
          message = (if ok then [] else
            js ''Name must be at least '' @ digits_of MIN_NAME_LENGTH @ js '' characters long'')\<rparr>)"

definition validatePhone :: "jsstring option \<Rightarrow> phone_validation" where
  "validatePhone phone =
     (let trimmedPhone = replace_space_runs (trim (or_empty phone));
          ok = test_anchored PHONE_REGEX trimmedPhone
      in \<lparr>isValid = ok,
          message = (if ok then [] else js ''Please enter a valid 10-digit Indian mobile number''),
          value' = trimmedPhone\<rparr>)"

definition validateAddress :: "jsstring option \<Rightarrow> validation" where
  "validateAddress address =
     (let trimmedAddress = trim (or_empty address);
          ok = (length trimmedAddress \<ge> MIN_ADDRESS_LENGTH)
      in \<lparr>isValid = ok,
          message = (if ok then [] else
            js ''Address must be at least '' @ digits_of MIN_ADDRESS_LENGTH @ js '' characters long'')\<rparr>)"

definition validatePIN :: "jsstring option \<Rightarrow> validation" where
  "validatePIN pin =
     (let trimmedPIN = trim (or_empty pin);
          ok = test_anchored PIN_REGEX trimmedPIN
      in \<lparr>isValid = ok,
          message = (if ok then [] else js ''Please enter a valid 6-digit PIN code'')\<rparr>)"

section \<open>parseInt\<close>

text \<open>
  \<^verbatim>\<open>parseInt(x, 10)\<close>: the argument is converted to a string (\<open>undefined\<close> becomes the
  text "undefined"), leading white space is skipped, one sign is read, and the longest
  run of decimal digits that follows is the number; what comes after the digits is
  ignored. With no digit at that place the result is \<open>NaN\<close>, here \<open>None\<close>. The
  result is the integer that the digits denote; a JavaScript number rounds it once it
  exceeds 2^53, which changes no comparison with 1 or with 10.
\<close>

definition digit_value :: "jschar \<Rightarrow> int" where
  "digit_value c = uint c - 48"

definition parseInt :: "jsstring option \<Rightarrow> int option" where
  "parseInt x =
     (let inputString = (case x of None \<Rightarrow> js ''undefined'' | Some s \<Rightarrow> s);
          S = trimStart inputString;
          sign = (if S \<noteq> [] \<and> hd S = 0x2D then - 1 else 1);
          S' = (if S \<noteq> [] \<and> (hd S = 0x2B \<or> hd S = 0x2D) then tl S else S);
          Z = takeWhile isDecimalDigit S'
      in if Z = [] then None
         else Some (sign * foldl (\<lambda>n c. 10 * n + digit_value c) 0 Z))"

section \<open>Catalog\<close>

text \<open>
  The keys \<^verbatim>\<open>id\<close> and \<^verbatim>\<open>name\<close> of a product are the fields \<open>product_id\<close> and
  \<open>product_name\<close>. Prices are whole rupees, far below 2^53, where the arithmetic of
  JavaScript numbers is that of the integers. The offers of the catalog are only
  displayed and play no part in what follows.
\<close>

record product =
  product_id :: jsstring
  product_name :: jsstring
  price :: int
  abv :: int
  image :: jsstring
  category :: jsstring
  description :: jsstring

definition products :: "product list" where
  "products =
    [\<lparr>product_id = js ''jack-premium-whisky'',
      product_name = js ''Premium Whisky - Jack Daniels'',
      price = 1299, abv = 40, image = js ''images/jack.jpg'', category = js ''whisky'',
      description = js ''Tennessee whiskey with smooth vanilla finish''\<rparr>,
     \<lparr>product_id = js ''jameson-irish-whisky'',
      product_name = js ''Jameson Irish Whisky'',
      price = 1199, abv = 40, image = js ''images/jameson.jpg'', category = js ''whisky'',
      description = js ''Triple-distilled Irish whiskey with citrus notes''\<rparr>,
     \<lparr>product_id = js ''luxury-premium-vodka'',
      product_name = js ''Luxury Premium Vodka'',
      price = 999, abv = 40, image = js ''images/vodka.jpg'', category = js ''vodka'',
      description = js ''Ultra-pure vodka with crystal clarity''\<rparr>,
     \<lparr>product_id = js ''black-tot-rum'',
      product_name = js ''Black Tot Premium Rum'',
      price = 899, abv = 42, image = js ''images/blacktot.jpg'', category = js ''rum'',
      description = js ''Caribbean rum with rich molasses flavor''\<rparr>,
     \<lparr>product_id = js ''black-white-scotch'',
      product_name = js ''Black & White Scotch Whisky'',
      price = 1099, abv = 43, image = js ''images/blackwhite.jpg'', category = js ''whisky'',
      description = js ''Blended Scotch with smoky undertones''\<rparr>,
     \<lparr>product_id = js ''old-monk-rum'',
      product_name = js ''Old Monk Dark Rum'',
      price = 499, abv = 42, image = js ''images/oldmonk.jpg'', category = js ''rum'',
      description = js ''Classic Indian dark rum with vanilla notes''\<rparr>]"

text \<open>
  \<^verbatim>\<open>products.find(product => product.id === productId) || null\<close>: a product is an
  object, hence truthy, so the result is the first match, or \<open>null\<close> (\<open>None\<close>).
\<close>

definition getProductById :: "jsstring \<Rightarrow> product option" where
  "getProductById productId =
     (case find (\<lambda>p. product_id p = productId) products of
        Some found \<Rightarrow> Some found
      | None \<Rightarrow> None)"

section \<open>Order form, delivery estimate and booking\<close>

record order_form =
  name :: "jsstring option"
  phone :: "jsstring option"
  address :: "jsstring option"
  city :: "jsstring option"
  pin :: "jsstring option"
  payment :: "jsstring option"
  quantity :: "jsstring option"

text \<open>
  A \<^verbatim>\<open>Date\<close> is its time value, in milliseconds since the epoch. The locale-dependent
  renderings of a date belong to the platform and are parameters.
\<close>

record eta =
  date :: int
  dateString :: jsstring
  daysFromNow :: int
  relative :: jsstring

text \<open>
  The key \<^verbatim>\<open>id\<close> of a booking is the field \<open>booking_id\<close>. \<open>totalAmount\<close> is a number:
  \<open>None\<close> is \<open>NaN\<close>.
\<close>

record booking =
  booking_id :: jsstring
  createdAt :: jsstring
  status :: jsstring
  customer :: order_form
  product :: product
  eta :: eta
  totalAmount :: "int option"

section \<open>Storage\<close>

text \<open>
  The browser's \<^verbatim>\<open>localStorage\<close>, with the two records the application keeps there.
  \<^verbatim>\<open>Storage.setItem\<close> writes \<^verbatim>\<open>JSON.stringify(value)\<close> and \<^verbatim>\<open>Storage.getItem\<close> returns
  \<^verbatim>\<open>JSON.parse\<close> of what it reads, so a slot holds the decoded value; a key that is
  missing, empty or unparsable reads as \<open>null\<close> and is \<open>None\<close>. Any access raises when
  the store is not \<open>accessible\<close> (storage disabled), and a write raises when there is
  no room left (quota exceeded).
\<close>

record localStorage =
  selected_product :: "product option"
  booking_data :: "booking option"
  accessible :: bool
  has_room :: bool

text \<open>A storage key, typed by the record kept under it.\<close>

record 'a storage_key =
  read_slot :: "localStorage \<Rightarrow> 'a option"
  write_slot :: "'a option \<Rightarrow> localStorage \<Rightarrow> localStorage"

definition SELECTED_PRODUCT :: "product storage_key" where
  "SELECTED_PRODUCT =
     \<lparr>read_slot = selected_product, write_slot = (\<lambda>v st. st\<lparr>selected_product := v\<rparr>)\<rparr>"

definition BOOKING_DATA :: "booking storage_key" where
  "BOOKING_DATA =
     \<lparr>read_slot = booking_data, write_slot = (\<lambda>v st. st\<lparr>booking_data := v\<rparr>)\<rparr>"

datatype dom_exception = SecurityError | QuotaExceededError

definition localStorage_setItem ::
    "'a storage_key \<Rightarrow> 'a \<Rightarrow> localStorage \<Rightarrow> dom_exception + localStorage" where
  "localStorage_setItem key v st =
     (if \<not> accessible st then Inl SecurityError
      else if \<not> has_room st then Inl QuotaExceededError
      else Inr (write_slot key (Some v) st))"

definition localStorage_getItem ::
    "'a storage_key \<Rightarrow> localStorage \<Rightarrow> dom_exception + 'a option" where
  "localStorage_getItem key st =
     (if \<not> accessible st then Inl SecurityError else Inr (read_slot key st))"

definition localStorage_removeItem ::
    "'a storage_key \<Rightarrow> localStorage \<Rightarrow> dom_exception + localStorage" where
  "localStorage_removeItem key st =
     (if \<not> accessible st then Inl SecurityError else Inr (write_slot key None st))"

text \<open>The wrappers catch every exception: a boolean, or \<open>null\<close>, comes back instead.\<close>

definition Storage_setItem :: "'a storage_key \<Rightarrow> 'a \<Rightarrow> localStorage \<Rightarrow> bool \<times> localStorage" where
  "Storage_setItem key v st =
     (case localStorage_setItem key v st of
        Inr st' \<Rightarrow> (True, st')
      | Inl error \<Rightarrow> (False, st))"

definition Storage_getItem :: "'a storage_key \<Rightarrow> localStorage \<Rightarrow> 'a option" where
  "Storage_getItem key st =
     (case localStorage_getItem key st of
        Inr item \<Rightarrow> item
      | Inl error \<Rightarrow> None)"

definition Storage_removeItem :: "'a storage_key \<Rightarrow> localStorage \<Rightarrow> bool \<times> localStorage" where
  "Storage_removeItem key st =
     (case localStorage_removeItem key st of
        Inr st' \<Rightarrow> (True, st')
      | Inl error \<Rightarrow> (False, st))"

section \<open>SelectionManager\<close>

text \<open>
  The calls into \<^verbatim>\<open>UIManager\<close> after a successful write repaint the page from the
  store and write nothing to it; they are left out.
\<close>

definition selectProduct :: "jsstring \<Rightarrow> localStorage \<Rightarrow> bool \<times> localStorage" where
  "selectProduct productId st =
     (case getProductById productId of
        None \<Rightarrow> (False, st)
      | Some found \<Rightarrow> Storage_setItem SELECTED_PRODUCT found st)"

definition getSelectedProduct :: "localStorage \<Rightarrow> product option" where
  "getSelectedProduct st = Storage_getItem SELECTED_PRODUCT st"

definition clearSelection :: "localStorage \<Rightarrow> bool \<times> localStorage" where
  "clearSelection st = Storage_removeItem SELECTED_PRODUCT st"

section \<open>OrderManager\<close>

text \<open>
  What the platform supplies: the offset of local time from UTC in milliseconds, and
  the two renderings of a date that the code asks for. The clock and \<^verbatim>\<open>Math.random()\<close>
  are read anew at every use; each reading is an argument of the function that makes it.
\<close>

record platform =
  timezoneOffset :: int
  toLocaleDateString :: "int \<Rightarrow> jsstring"
  toISOString :: "int \<Rightarrow> jsstring"

text \<open>\<^verbatim>\<open>Date.prototype.getDay\<close>: the day of the week in local time, 0 for Sunday.\<close>

definition getDay :: "platform \<Rightarrow> int \<Rightarrow> int" where
  "getDay pf t = ((t + timezoneOffset pf) div 86400000 + 4) mod 7"

text \<open>\<open>today\<close> is the time value of \<^verbatim>\<open>new Date()\<close>, \<open>random\<close> the value of \<^verbatim>\<open>Math.random()\<close>.\<close>

definition generateETA :: "platform \<Rightarrow> int \<Rightarrow> real \<Rightarrow> eta" where
  "generateETA pf today random =
     (let dayOfWeek = getDay pf today;
          baseDays = \<lfloor>random * real_of_int (MAX_DAYS - MIN_DAYS + 1)\<rfloor> + MIN_DAYS;
          baseDays' = (if dayOfWeek = 0 \<or> dayOfWeek = 6 then baseDays + WEEKEND_DELAY
                       else baseDays);
          deliveryDate = today + baseDays' * 24 * 60 * 60 * 1000
      in \<lparr>date = deliveryDate,
          dateString = toLocaleDateString pf deliveryDate,
          daysFromNow = baseDays',
          relative = (if baseDays' = 1 then js ''Tomorrow''
                      else toString baseDays' @ js '' days'')\<rparr>)"

text \<open>\<^verbatim>\<open>Number.prototype.toString(36)\<close> on an integer: the digits 0-9 and a-z.\<close>

function digits36_of :: "nat \<Rightarrow> jsstring" where
  "digits36_of n =
     (let digit = (\<lambda>d. if d < 10 then of_nat (48 + d) else of_nat (87 + d))
      in if n < 36 then [digit n] else digits36_of (n div 36) @ [digit (n mod 36)])"
  by pat_completeness auto
termination
  by (relation "measure (\<lambda>n. n)") auto

declare digits36_of.simps [simp del]

definition toString36 :: "int \<Rightarrow> jsstring" where
  "toString36 i = (if i < 0 then js ''-'' @ digits36_of (nat (- i)) else digits36_of (nat i))"

text \<open>\<^verbatim>\<open>toUpperCase\<close> on the Latin letters; the identifier has no other letters.\<close>

definition toUpperCase :: "jsstring \<Rightarrow> jsstring" where
  "toUpperCase s = map (\<lambda>c. if 0x61 \<le> c \<and> c \<le> 0x7A then c - 0x20 else c) s"

text \<open>
  \<open>now\<close> is \<^verbatim>\<open>Date.now()\<close> and \<open>random36\<close> is \<^verbatim>\<open>Math.random().toString(36)\<close>, of which
  \<^verbatim>\<open>substr(2, 4)\<close> keeps at most four code units from index 2.
\<close>

definition generateOrderId :: "int \<Rightarrow> jsstring \<Rightarrow> jsstring" where
  "generateOrderId now random36 =
     (let timestamp = toString36 now;
          random = take 4 (drop 2 random36)
      in toUpperCase (js ''LLX-'' @ timestamp @ js ''-'' @ random))"

text \<open>Numbers that may be \<open>NaN\<close> (\<open>None\<close>): every comparison with \<open>NaN\<close> is false.\<close>

definition isNaN :: "int option \<Rightarrow> bool" where
  "isNaN x \<longleftrightarrow> x = None"

definition js_less :: "int option \<Rightarrow> int option \<Rightarrow> bool" where
  "js_less x y = (case (x, y) of (Some a, Some b) \<Rightarrow> a < b | _ \<Rightarrow> False)"

definition js_times :: "int option \<Rightarrow> int option \<Rightarrow> int option" where
  "js_times x y = (case (x, y) of (Some a, Some b) \<Rightarrow> Some (a * b) | _ \<Rightarrow> None)"

datatype field = Name | Phone | Address | City | Pin | Payment | Quantity

type_synonym field_messages = "field \<rightharpoonup> jsstring"

record form_validation = check +
  errors :: field_messages
  validatedData :: order_form

text \<open>\<^verbatim>\<open>errors.f = msg; isValid = false;\<close> on the pair of the two local variables.\<close>

definition report :: "field \<Rightarrow> jsstring \<Rightarrow> field_messages \<times> bool \<Rightarrow> field_messages \<times> bool" where
  "report f msg acc = ((fst acc)(f \<mapsto> msg), False)"

definition validateOrderForm :: "order_form \<Rightarrow> form_validation" where
  "validateOrderForm formData =
     (let acc0 = (Map.empty, True);
          nameValidation = validateName (name formData);
          acc1 = (if \<not> isValid nameValidation
                  then report Name (message nameValidation) acc0 else acc0);
          phoneValidation = validatePhone (phone formData);
          acc2 = (if \<not> isValid phoneValidation
                  then report Phone (message phoneValidation) acc1 else acc1);
          addressValidation = validateAddress (address formData);
          acc3 = (if \<not> isValid addressValidation
                  then report Address (message addressValidation) acc2 else acc2);
          acc4 = (if falsy (city formData) \<or> length (trim (or_empty (city formData))) < 2
                  then report City (js ''Please enter a valid city name'') acc3 else acc3);
          pinValidation = validatePIN (pin formData);
          acc5 = (if \<not> isValid pinValidation
                  then report Pin (message pinValidation) acc4 else acc4);
          acc6 = (if falsy (payment formData)
                  then report Payment (js ''Please select a payment method'') acc5 else acc5);
          quantity' = parseInt (quantity formData);
          acc7 = (if isNaN quantity' \<or> js_less quantity' (Some 1) \<or> js_less (Some 10) quantity'
                  then report Quantity (js ''Quantity must be between 1 and 10'') acc6 else acc6)
      in \<lparr>isValid = snd acc7,
          errors = fst acc7,
          validatedData = formData\<lparr>phone := Some (value' phoneValidation)\<rparr>\<rparr>)"

text \<open>
  The result of \<^verbatim>\<open>processOrder\<close> is one of three object literals. A key that the
  literal does not have, or whose value is \<open>null\<close>, is \<open>None\<close>; the key \<^verbatim>\<open>errors\<close> is
  the field \<open>field_errors\<close>.
\<close>

record order_result =
  success :: bool
  error :: "jsstring option"
  field_errors :: "field_messages option"
  booking :: "booking option"

text \<open>The clock and random readings of one call of \<^verbatim>\<open>processOrder\<close>, in program order.\<close>

record readings =
  id_now :: int
  id_random36 :: jsstring
  eta_today :: int
  eta_random :: real
  created_now :: int

definition processOrder ::
    "platform \<Rightarrow> readings \<Rightarrow> order_form \<Rightarrow> localStorage \<Rightarrow> order_result \<times> localStorage" where
  "processOrder pf rd formData st =
     (case getSelectedProduct st of
        None \<Rightarrow>
          (\<lparr>success = False,
            error = Some (js ''No product selected. Please select a product from the menu first.''),
            field_errors = None, booking = None\<rparr>, st)
      | Some selectedProduct \<Rightarrow>
          (let validation = validateOrderForm formData in
           if \<not> isValid validation
           then (\<lparr>success = False, error = None,
                  field_errors = Some (errors validation), booking = None\<rparr>, st)
           else
             (let orderId = generateOrderId (id_now rd) (id_random36 rd);
                  eta' = generateETA pf (eta_today rd) (eta_random rd);
                  booking' =
                    \<lparr>booking_id = orderId,
                     createdAt = toISOString pf (created_now rd),
                     status = js ''confirmed'',
                     customer = validatedData validation,
                     product = selectedProduct,
                     eta = eta',
                     totalAmount = js_times (Some (price selectedProduct))
                                     (parseInt (quantity (validatedData validation)))\<rparr>;
                  (saved, st') = Storage_setItem BOOKING_DATA booking' st
              in (\<lparr>success = saved,
                   error = (if saved then None
                            else Some (js ''Failed to save order. Please try again.'')),
                   field_errors = None,
                   booking = (if saved then Some booking' else None)\<rparr>, st'))))"

section \<open>formatCurrency\<close>

text \<open>
  The argument can be any value. Of the numbers, \<open>NaN\<close> and the integers are
  represented: amounts are whole rupees. \<^verbatim>\<open>isNaN(amount)\<close> is evaluated only when
  \<open>amount\<close> is a number, and holds of \<open>NaN\<close> alone there.
\<close>

datatype jsvalue =
    JSUndefined
  | JSNull
  | JSBoolean bool
  | JSString jsstring
  | JSNaN
  | JSInteger int

definition typeof_number :: "jsvalue \<Rightarrow> bool" where
  "typeof_number v = (case v of JSNaN \<Rightarrow> True | JSInteger i \<Rightarrow> True | _ \<Rightarrow> False)"

text \<open>
  \<^verbatim>\<open>toLocaleString('en-IN')\<close> on an integer: the last three digits form a group and
  the digits before them are grouped in twos, with commas between the groups.
\<close>

fun pairs_from_right :: "jsstring \<Rightarrow> jsstring" where
  "pairs_from_right (a # b # c # rest) = a # b # 0x2C # pairs_from_right (c # rest)"
| "pairs_from_right ds = ds"

definition group_en_IN :: "jsstring \<Rightarrow> jsstring" where
  "group_en_IN ds =
     (if length ds \<le> 3 then ds
      else rev (pairs_from_right (rev (take (length ds - 3) ds))) @ js '','' @
           drop (length ds - 3) ds)"

definition toLocaleString_en_IN :: "int \<Rightarrow> jsstring" where
  "toLocaleString_en_IN i =
     (if i < 0 then js ''-'' @ group_en_IN (digits_of (nat (- i)))
      else group_en_IN (digits_of (nat i)))"

definition formatCurrency :: "jsvalue \<Rightarrow> jsstring" where
  "formatCurrency amount =
     (if \<not> typeof_number amount \<or> amount = JSNaN then SYMBOL @ js ''0''
      else (case amount of
              JSInteger i \<Rightarrow> SYMBOL @ toLocaleString_en_IN i
            | _ \<Rightarrow> SYMBOL @ js ''0''))"

section \<open>The specification's wording\<close>

text \<open>
  The phone number after trimming and removal of all internal white space, and what
  the specification calls an Indian mobile number: exactly ten digits, the first of
  which is 6, 7, 8 or 9.
\<close>

definition spec_normalized_phone :: "jsstring option \<Rightarrow> jsstring" where
  "spec_normalized_phone x = filter (\<lambda>c. \<not> is_space c) (trim (or_empty x))"

definition spec_mobile_number :: "jsstring \<Rightarrow> bool" where
  "spec_mobile_number n \<longleftrightarrow>
     length n = 10 \<and> list_all isDecimalDigit n \<and>
     take 1 n \<in> {js ''6'', js ''7'', js ''8'', js ''9''}"

text \<open>
  The seven field rules. Every text field is trimmed first; a missing field counts as
  the empty string. The quantity is read by \<open>parseInt\<close>.
\<close>

fun spec_field_valid :: "field \<Rightarrow> order_form \<Rightarrow> bool" where
  "spec_field_valid Name f \<longleftrightarrow> length (trim (or_empty (name f))) \<ge> 2"
| "spec_field_valid Phone f \<longleftrightarrow> spec_mobile_number (spec_normalized_phone (phone f))"
| "spec_field_valid Address f \<longleftrightarrow> length (trim (or_empty (address f))) \<ge> 10"
| "spec_field_valid City f \<longleftrightarrow> length (trim (or_empty (city f))) \<ge> 2"
| "spec_field_valid Pin f \<longleftrightarrow>
     length (trim (or_empty (pin f))) = 6 \<and> list_all isDecimalDigit (trim (or_empty (pin f)))"
| "spec_field_valid Payment f \<longleftrightarrow> or_empty (payment f) \<noteq> []"
| "spec_field_valid Quantity f \<longleftrightarrow>
     (case parseInt (quantity f) of None \<Rightarrow> False | Some n \<Rightarrow> 1 \<le> n \<and> n \<le> 10)"

text \<open>
  Numeric input, read as the whole text being an integer numeral: around it white
  space, then an optional sign, then decimal digits and nothing else. The value of a
  run of decimal digits.
\<close>

definition spec_integer_numeral :: "jsstring \<Rightarrow> bool" where
  "spec_integer_numeral s \<longleftrightarrow>
     (let t = trim s;
          d = (if t \<noteq> [] \<and> (hd t = 0x2B \<or> hd t = 0x2D) then tl t else t)
      in d \<noteq> [] \<and> list_all isDecimalDigit d)"

definition spec_decimal_value :: "jsstring \<Rightarrow> int" where
  "spec_decimal_value ds = foldl (\<lambda>n c. 10 * n + digit_value c) 0 ds"

section \<open>Sample inputs\<close>

text \<open>
  A browser in the Indian time zone that renders a date as its time value, an empty
  store that accepts writes, the store after the first product of the catalog has been
  selected, a form with nothing filled in, a form that passes every rule, and the
  readings of one submission on Monday 2 November 2026, 12:00 UTC.
\<close>

definition sample_platform :: platform where
  "sample_platform =
     \<lparr>timezoneOffset = 19800000, toLocaleDateString = toString, toISOString = toString\<rparr>"

definition empty_store :: localStorage where
  "empty_store =
     \<lparr>selected_product = None, booking_data = None, accessible = True, has_room = True\<rparr>"

definition sample_store :: localStorage where
  "sample_store = snd (selectProduct (js ''jack-premium-whisky'') empty_store)"

definition blank_form :: order_form where
  "blank_form =
     \<lparr>name = None, phone = None, address = None, city = None, pin = None, payment = None,
      quantity = None\<rparr>"

definition sample_form :: order_form where
  "sample_form =
     \<lparr>name = Some (js ''Asha Rao''), phone = Some (js ''987 654 3210''),
      address = Some (js ''12 MG Road, Pune''), city = Some (js ''Pune''),
      pin = Some (js ''411001''), payment = Some (js ''cod''), quantity = Some (js ''2'')\<rparr>"

definition sample_readings :: readings where
  "sample_readings =
     \<lparr>id_now = 1793620800000, id_random36 = js ''0.f3k9zq2'', eta_today = 1793620800000,
      eta_random = 3 / 4, created_now = 1793620800001\<rparr>"

section \<open>Auxiliary facts\<close>

lemmas string_defs =
  js_def or_empty_def falsy_def trim_def trimStart_def trimEnd_def
  is_space_def isWhiteSpace_def isLineTerminator_def isDecimalDigit_def

lemma digit_range:
  "(0x36 \<le> c \<and> c \<le> 0x39) \<longleftrightarrow> c \<in> {0x36, 0x37, 0x38, 0x39::16 word}"
proof
  assume "0x36 \<le> c \<and> c \<le> 0x39"
  then have "54 \<le> unat c \<and> unat c \<le> 57"
    by (simp add: word_le_nat_alt)
  then have "unat c = 54 \<or> unat c = 55 \<or> unat c = 56 \<or> unat c = 57"
    by arith
  then have "c = 54 \<or> c = 55 \<or> c = 56 \<or> c = 57"
    by (simp add: word_unat_eq_iff)
  then show "c \<in> {0x36, 0x37, 0x38, 0x39::16 word}"
    by auto
next
  assume "c \<in> {0x36, 0x37, 0x38, 0x39::16 word}"
  then show "0x36 \<le> c \<and> c \<le> 0x39"
    by auto
qed

lemma unat_of_char: "unat (of_char c :: 16 word) = of_char c"
proof -
  have "(of_char c :: nat) < 256"
    by simp
  then have "(of_char c :: nat) < 65536"
    by linarith
  then have "(of_char c :: nat) mod 65536 = of_char c"
    by (rule mod_less)
  moreover have "(of_char c :: 16 word) = of_nat (of_char c)"
    by (simp add: of_nat_of_char)
  ultimately show ?thesis
    by (simp add: unat_of_nat)
qed

lemma inj_of_char_word: "inj (of_char :: char \<Rightarrow> 16 word)"
proof (rule injI)
  fix c d :: char
  assume "(of_char c :: 16 word) = of_char d"
  then have "unat (of_char c :: 16 word) = unat (of_char d :: 16 word)"
    by simp
  then show "c = d"
    by (simp add: unat_of_char)
qed

lemma js_inj: "js a = js b \<longleftrightarrow> a = b"
  unfolding js_def by (rule inj_map_eq_map [OF inj_of_char_word])

lemma replace_space_runs_filter: "replace_space_runs s = filter (\<lambda>c. \<not> is_space c) s"
proof (induction s rule: replace_space_runs.induct)
  case 1
  show ?case by simp
next
  case (2 c cs)
  have "filter (\<lambda>c. \<not> is_space c) (dropWhile is_space cs) = filter (\<lambda>c. \<not> is_space c) cs"
    by (induction cs) auto
  with 2 show ?case by simp
qed

lemma rmatch_Repeat_Digit:
  "rmatch (Repeat DigitClass n) s =
     (if n \<le> length s \<and> list_all isDecimalDigit (take n s) then Some (drop n s) else None)"
proof (induction n arbitrary: s)
  case 0
  show ?case by simp
next
  case (Suc n)
  show ?case by (cases s) (auto simp: Suc)
qed

lemma test_PHONE_REGEX: "test_anchored PHONE_REGEX n \<longleftrightarrow> spec_mobile_number n"
proof (cases n)
  case Nil
  then show ?thesis
    by (simp add: test_anchored_def PHONE_REGEX_def spec_mobile_number_def)
next
  case (Cons c cs)
  have first: "(0x36 \<le> c \<and> c \<le> 0x39) \<longleftrightarrow> [c] \<in> {js ''6'', js ''7'', js ''8'', js ''9''}"
    by (simp add: digit_range js_def)
  have digit: "isDecimalDigit c" if "0x36 \<le> c \<and> c \<le> 0x39"
    using that digit_range [of c] by (auto simp: isDecimalDigit_def)
  have rest: "rmatch (Repeat DigitClass 9) cs = Some [] \<longleftrightarrow>
      length cs = 9 \<and> list_all isDecimalDigit cs"
    by (auto simp: rmatch_Repeat_Digit)
  have "test_anchored PHONE_REGEX n \<longleftrightarrow>
      (0x36 \<le> c \<and> c \<le> 0x39) \<and> rmatch (Repeat DigitClass 9) cs = Some []"
    by (auto simp: test_anchored_def PHONE_REGEX_def Cons)
  also have "\<dots> \<longleftrightarrow> spec_mobile_number n"
    unfolding rest spec_mobile_number_def Cons using first digit by auto
  finally show ?thesis .
qed

lemma test_PIN_REGEX:
  "test_anchored PIN_REGEX s \<longleftrightarrow> length s = 6 \<and> list_all isDecimalDigit s"
  by (auto simp: test_anchored_def PIN_REGEX_def rmatch_Repeat_Digit)

subsection \<open>The accumulation of field errors\<close>

lemma snd_if_report: "snd (if c then report f m acc else acc) = (snd acc \<and> \<not> c)"
  by (simp add: report_def)

lemma dom_fst_if_report:
  "dom (fst (if c then report f m acc else acc)) = dom (fst acc) \<union> (if c then {f} else {})"
  by (simp add: report_def)

lemma check_Name: "\<not> isValid (validateName (name f)) \<longleftrightarrow> \<not> spec_field_valid Name f"
  by (simp add: validateName_def Let_def MIN_NAME_LENGTH_def)

lemma check_Phone: "\<not> isValid (validatePhone (phone f)) \<longleftrightarrow> \<not> spec_field_valid Phone f"
  by (simp add: validatePhone_def Let_def test_PHONE_REGEX replace_space_runs_filter
      spec_normalized_phone_def)

lemma check_Address: "\<not> isValid (validateAddress (address f)) \<longleftrightarrow> \<not> spec_field_valid Address f"
  by (simp add: validateAddress_def Let_def MIN_ADDRESS_LENGTH_def)

lemma check_City:
  "(falsy (city f) \<or> length (trim (or_empty (city f))) < 2) \<longleftrightarrow> \<not> spec_field_valid City f"
  by (auto simp: falsy_def or_empty_def trim_def trimStart_def trimEnd_def split: option.splits)

lemma check_Pin: "\<not> isValid (validatePIN (pin f)) \<longleftrightarrow> \<not> spec_field_valid Pin f"
  by (simp add: validatePIN_def Let_def test_PIN_REGEX)

lemma check_Payment: "falsy (payment f) \<longleftrightarrow> \<not> spec_field_valid Payment f"
  by (simp add: falsy_def or_empty_def split: option.splits)

lemma check_Quantity:
  "(isNaN (parseInt (quantity f)) \<or> js_less (parseInt (quantity f)) (Some 1) \<or>
    js_less (Some 10) (parseInt (quantity f))) \<longleftrightarrow> \<not> spec_field_valid Quantity f"
  by (auto simp: isNaN_def js_less_def split: option.splits)

lemmas field_checks =
  check_Name check_Phone check_Address check_City check_Pin check_Payment check_Quantity

lemma validateOrderForm_isValid:
  "isValid (validateOrderForm f) \<longleftrightarrow>
     list_all (\<lambda>fld. spec_field_valid fld f) [Name, Phone, Address, City, Pin, Payment, Quantity]"
  unfolding validateOrderForm_def Let_def field_checks
  by (simp add: snd_if_report del: spec_field_valid.simps)

lemma validateOrderForm_errors:
  "dom (errors (validateOrderForm f)) = {fld. \<not> spec_field_valid fld f}"
proof -
  have "fld \<in> dom (errors (validateOrderForm f)) \<longleftrightarrow> \<not> spec_field_valid fld f" for fld
    unfolding validateOrderForm_def Let_def field_checks
    by (cases fld) (simp_all add: dom_fst_if_report del: spec_field_valid.simps)
  then show ?thesis by blast
qed

lemma validateOrderForm_validatedData:
  "validatedData (validateOrderForm f) = f\<lparr>phone := Some (value' (validatePhone (phone f)))\<rparr>"
  by (simp add: validateOrderForm_def Let_def)

lemma valid_quantity:
  assumes "isValid (validateOrderForm f)"
  shows "\<exists>n. parseInt (quantity f) = Some n \<and> 1 \<le> n \<and> n \<le> 10"
  using assms unfolding validateOrderForm_isValid
  by (auto split: option.splits)

subsection \<open>parseInt on digits\<close>

lemma digit_not_space: "isDecimalDigit c \<Longrightarrow> \<not> is_space c \<and> c \<noteq> 0x2B \<and> c \<noteq> 0x2D"
  using order_trans [of "0x2000::16 word" c "0x39"]
  by (auto simp: isDecimalDigit_def is_space_def isWhiteSpace_def isLineTerminator_def)

lemma parseInt_digits:
  assumes "ds \<noteq> []" and "list_all isDecimalDigit ds"
  shows "parseInt (Some ds) = Some (spec_decimal_value ds)"
proof -
  obtain c cs where ds: "ds = c # cs"
    using assms(1) by (cases ds) auto
  with assms(2) have c: "isDecimalDigit c"
    by simp
  have tw: "takeWhile isDecimalDigit ds = ds"
    using assms(2) by (simp add: list_all_iff)
  show ?thesis
    using digit_not_space [OF c] tw assms(1)
    by (simp add: parseInt_def trimStart_def Let_def ds spec_decimal_value_def)
qed

lemmas parse_defs = parseInt_def Let_def digit_value_def spec_decimal_value_def string_defs

subsection \<open>The catalog and the store\<close>

lemma find_by_key:
  "distinct (map f xs) \<Longrightarrow> x \<in> set xs \<Longrightarrow> find (\<lambda>y. f y = f x) xs = Some x"
  by (induction xs) (auto simp: image_iff)

lemma find_no_key:
  "k \<notin> f ` set xs \<Longrightarrow> find (\<lambda>y. f y = k) xs = None"
  by (induction xs) auto

lemma distinct_product_ids: "distinct (map product_id products)"
  by (simp add: products_def js_inj)

lemma getProductById_member:
  "p \<in> set products \<Longrightarrow> getProductById (product_id p) = Some p"
  by (simp add: getProductById_def find_by_key [OF distinct_product_ids])

lemmas storage_defs =
  Storage_getItem_def Storage_removeItem_def Storage_setItem_def
  localStorage_getItem_def localStorage_removeItem_def localStorage_setItem_def
  SELECTED_PRODUCT_def BOOKING_DATA_def

lemma hd_products_member: "hd products \<in> set products"
  by (simp add: products_def)

lemma sample_store_eq: "sample_store = empty_store\<lparr>selected_product := Some (hd products)\<rparr>"
  using getProductById_member [OF hd_products_member]
  by (simp add: sample_store_def selectProduct_def storage_defs empty_store_def products_def)

lemma sample_selection: "getSelectedProduct sample_store = Some (hd products)"
  by (simp add: sample_store_eq getSelectedProduct_def storage_defs empty_store_def)

lemma sample_form_valid: "isValid (validateOrderForm sample_form)"
  unfolding validateOrderForm_isValid
  by (simp add: sample_form_def spec_mobile_number_def spec_normalized_phone_def parse_defs)

lemma blank_form_invalid: "\<not> isValid (validateOrderForm blank_form)"
  unfolding validateOrderForm_isValid
  by (simp add: blank_form_def parse_defs)

lemma empty_store_selection: "getSelectedProduct empty_store = None"
  by (simp add: getSelectedProduct_def storage_defs empty_store_def)

subsection \<open>The random draw\<close>

lemma floor_draw:
  assumes "0 \<le> random" and "random < 1"
  shows "0 \<le> \<lfloor>random * real_of_int (MAX_DAYS - MIN_DAYS + 1)\<rfloor> \<and>
         \<lfloor>random * real_of_int (MAX_DAYS - MIN_DAYS + 1)\<rfloor> \<le> MAX_DAYS - MIN_DAYS"
proof -
  have "0 \<le> random * 4" and "random * 4 < 4"
    using assms by simp_all
  then have "0 \<le> \<lfloor>random * 4\<rfloor>" and "\<lfloor>random * 4\<rfloor> < 4"
    by (simp_all add: floor_less_iff)
  then show ?thesis
    by (simp add: MAX_DAYS_def MIN_DAYS_def)
qed

section \<open>Field validation\<close>

text \<open>
  C5. For every input, missing or a string, \<open>validatePhone\<close> reports \<open>isValid\<close> exactly
  when the input, trimmed and with all its white space removed, is a string of exactly
  ten digits whose first digit is 6, 7, 8 or 9; and the value it returns is that
  normalized string, whether the number is valid or not.
\<close>

theorem validatePhone_accepts_mobile_numbers:
  "isValid (validatePhone x) = spec_mobile_number (spec_normalized_phone x) \<and>
   value' (validatePhone x) = spec_normalized_phone x"
  by (simp add: validatePhone_def Let_def test_PHONE_REGEX replace_space_runs_filter
      spec_normalized_phone_def)

text \<open>
  The examples of the specification: "9876543210" is valid, "1234567890" is not, and
  "987 654 3210" is normalized to a valid number.
\<close>

theorem validatePhone_examples:
  "isValid (validatePhone (Some (js ''9876543210''))) \<and>
   \<not> isValid (validatePhone (Some (js ''1234567890''))) \<and>
   isValid (validatePhone (Some (js ''987 654 3210''))) \<and>
   value' (validatePhone (Some (js ''987 654 3210''))) = js ''9876543210''"
  using validatePhone_accepts_mobile_numbers [of "Some (js ''9876543210'')"]
    validatePhone_accepts_mobile_numbers [of "Some (js ''1234567890'')"]
    validatePhone_accepts_mobile_numbers [of "Some (js ''987 654 3210'')"]
  by (simp add: spec_mobile_number_def spec_normalized_phone_def string_defs)

text \<open>
  The quantity "3abc" is not the text of a number, and the quantity check accepts it:
  \<open>parseInt\<close> reads the leading 3 and ignores the letters. So it is not the case that
  every non-numeric input is invalid.
\<close>

theorem quantity_accepts_trailing_text:
  "\<not> spec_integer_numeral (js ''3abc'') \<and>
   Quantity \<notin> dom (errors (validateOrderForm (blank_form\<lparr>quantity := Some (js ''3abc'')\<rparr>)))"
  by (simp add: validateOrderForm_errors spec_integer_numeral_def blank_form_def parse_defs)

text \<open>
  C6, as amended. For every form, the quantity check of \<open>validateOrderForm\<close> accepts the
  quantity exactly when \<open>parseInt\<close> of it, in radix 10, is an integer in [1,10];
  \<open>parseInt\<close> skips leading white space, reads an optional sign and the longest run of
  decimal digits after it, and ignores what follows, and an input with no digit at
  that place is \<open>NaN\<close> and invalid. On an input made of decimal digits only, the check
  accepts exactly the values from 1 to 10.
\<close>

theorem quantity_check_parseInt:
  "(Quantity \<notin> dom (errors (validateOrderForm f)) \<longleftrightarrow>
      (case parseInt (quantity f) of None \<Rightarrow> False | Some n \<Rightarrow> 1 \<le> n \<and> n \<le> 10)) \<and>
   (quantity f = Some ds \<and> ds \<noteq> [] \<and> list_all isDecimalDigit ds \<longrightarrow>
      (Quantity \<notin> dom (errors (validateOrderForm f)) \<longleftrightarrow>
         1 \<le> spec_decimal_value ds \<and> spec_decimal_value ds \<le> 10))"
  by (auto simp: validateOrderForm_errors parseInt_digits)

text \<open>
  The quantities "0", "11", "abc", "" and a missing quantity are rejected; the boundary
  values "1" and "10" are accepted.
\<close>

theorem quantity_check_parseInt_witness:
  "Quantity \<in> dom (errors (validateOrderForm (blank_form\<lparr>quantity := Some (js ''0'')\<rparr>))) \<and>
   Quantity \<in> dom (errors (validateOrderForm (blank_form\<lparr>quantity := Some (js ''11'')\<rparr>))) \<and>
   Quantity \<in> dom (errors (validateOrderForm (blank_form\<lparr>quantity := Some (js ''abc'')\<rparr>))) \<and>
   Quantity \<in> dom (errors (validateOrderForm (blank_form\<lparr>quantity := Some (js '''')\<rparr>))) \<and>
   Quantity \<in> dom (errors (validateOrderForm blank_form)) \<and>
   Quantity \<notin> dom (errors (validateOrderForm (blank_form\<lparr>quantity := Some (js ''1'')\<rparr>))) \<and>
   Quantity \<notin> dom (errors (validateOrderForm (blank_form\<lparr>quantity := Some (js ''10'')\<rparr>))) \<and>
   list_all isDecimalDigit (js ''10'') \<and> spec_decimal_value (js ''10'') = 10"
  using quantity_check_parseInt [of "blank_form\<lparr>quantity := Some (js ''0'')\<rparr>" "js ''0''"]
    quantity_check_parseInt [of "blank_form\<lparr>quantity := Some (js ''11'')\<rparr>" "js ''11''"]
    quantity_check_parseInt [of "blank_form\<lparr>quantity := Some (js ''abc'')\<rparr>" "js ''abc''"]
    quantity_check_parseInt [of "blank_form\<lparr>quantity := Some (js '''')\<rparr>" "js ''''"]
    quantity_check_parseInt [of blank_form "[]"]
    quantity_check_parseInt [of "blank_form\<lparr>quantity := Some (js ''1'')\<rparr>" "js ''1''"]
    quantity_check_parseInt [of "blank_form\<lparr>quantity := Some (js ''10'')\<rparr>" "js ''10''"]
  by (simp add: blank_form_def parse_defs)

text \<open>
  C3. \<open>validateOrderForm\<close> is a total function of the form, whose fields may be missing
  or empty. Its result is valid exactly when all seven field checks pass. The keys of
  its error mapping are exactly the failing fields, all of them and not only the first,
  so an invalid result has at least one entry. \<open>validatedData\<close> is the form with the
  phone replaced by the phone validator's normalized value; every other field is the
  raw string that came in.
\<close>

theorem validateOrderForm_total:
  "(isValid (validateOrderForm f) \<longleftrightarrow>
      list_all (\<lambda>fld. spec_field_valid fld f) [Name, Phone, Address, City, Pin, Payment, Quantity]) \<and>
   dom (errors (validateOrderForm f)) = {fld. \<not> spec_field_valid fld f} \<and>
   (isValid (validateOrderForm f) \<or> errors (validateOrderForm f) \<noteq> Map.empty) \<and>
   validatedData (validateOrderForm f) = f\<lparr>phone := Some (value' (validatePhone (phone f)))\<rparr>"
proof -
  have "isValid (validateOrderForm f) \<or> dom (errors (validateOrderForm f)) \<noteq> {}"
    unfolding validateOrderForm_isValid validateOrderForm_errors
    by (auto simp del: spec_field_valid.simps)
  then have "isValid (validateOrderForm f) \<or> errors (validateOrderForm f) \<noteq> Map.empty"
    by auto
  then show ?thesis
    using validateOrderForm_isValid [of f] validateOrderForm_errors [of f]
      validateOrderForm_validatedData [of f]
    by blast
qed

text \<open>
  A form with nothing filled in fails on all seven fields; the sample form with the
  PIN "12345" fails on the PIN alone; the sample form is valid, its phone comes back
  without the blanks and its quantity as the string it was.
\<close>

theorem validateOrderForm_total_witness:
  "\<not> isValid (validateOrderForm blank_form) \<and>
   dom (errors (validateOrderForm blank_form)) =
     {Name, Phone, Address, City, Pin, Payment, Quantity} \<and>
   errors (validateOrderForm blank_form) \<noteq> Map.empty \<and>
   dom (errors (validateOrderForm (sample_form\<lparr>pin := Some (js ''12345'')\<rparr>))) = {Pin} \<and>
   isValid (validateOrderForm sample_form) \<and>
   phone (validatedData (validateOrderForm sample_form)) = Some (js ''9876543210'') \<and>
   quantity (validatedData (validateOrderForm sample_form)) = Some (js ''2'')"
proof -
  have all: "{fld. \<not> spec_field_valid fld blank_form} =
      {Name, Phone, Address, City, Pin, Payment, Quantity}"
  proof -
    have "\<not> spec_field_valid fld blank_form" for fld
      by (cases fld)
        (simp_all add: blank_form_def spec_mobile_number_def spec_normalized_phone_def parse_defs)
    moreover have "fld \<in> {Name, Phone, Address, City, Pin, Payment, Quantity}" for fld
      by (cases fld) simp_all
    ultimately show ?thesis by auto
  qed
  have pin: "{fld. \<not> spec_field_valid fld (sample_form\<lparr>pin := Some (js ''12345'')\<rparr>)} = {Pin}"
  proof -
    have "\<not> spec_field_valid fld (sample_form\<lparr>pin := Some (js ''12345'')\<rparr>) \<longleftrightarrow> fld = Pin" for fld
      by (cases fld)
        (simp_all add: sample_form_def spec_mobile_number_def spec_normalized_phone_def parse_defs)
    then show ?thesis by auto
  qed
  have ph: "value' (validatePhone (phone sample_form)) = js ''9876543210''"
    by (simp add: validatePhone_def Let_def replace_space_runs_filter sample_form_def string_defs)
  show ?thesis
    using validateOrderForm_total [of blank_form]
      validateOrderForm_total [of "sample_form\<lparr>pin := Some (js ''12345'')\<rparr>"]
      validateOrderForm_total [of sample_form]
      blank_form_invalid sample_form_valid
    by (simp add: all pin ph) (simp add: sample_form_def)
qed

section \<open>Catalog and selection\<close>

text \<open>
  C7. For every product \<open>p\<close> of the catalog, \<open>getProductById\<close> of the id of \<open>p\<close> returns
  \<open>p\<close>; for every id that no product of the catalog has, it returns \<open>null\<close>.
\<close>

theorem getProductById_catalog:
  "(p \<in> set products \<longrightarrow> getProductById (product_id p) = Some p) \<and>
   (productId \<notin> product_id ` set products \<longrightarrow> getProductById productId = None)"
  by (simp add: getProductById_def find_by_key [OF distinct_product_ids] find_no_key)

text \<open>The fourth product is found by its id; no product has the id "absinthe".\<close>

theorem getProductById_catalog_witness:
  "products ! 3 \<in> set products \<and>
   product_id (products ! 3) = js ''black-tot-rum'' \<and>
   getProductById (js ''black-tot-rum'') = Some (products ! 3) \<and>
   js ''absinthe'' \<notin> product_id ` set products \<and>
   getProductById (js ''absinthe'') = None"
  using getProductById_catalog [of "products ! 3" "js ''absinthe''"]
  by (simp add: products_def js_inj)

text \<open>
  C8. For every product of the catalog and every state of the store, selecting the
  product by its id, then clearing the selection, then reading the selection yields
  \<open>null\<close>. When the store accepts the write, the product was the selection before the
  clearing, so the clearing is what removed it.
\<close>

theorem select_clear_get:
  assumes "p \<in> set products"
  shows "(accessible st \<and> has_room st \<longrightarrow>
            getSelectedProduct (snd (selectProduct (product_id p) st)) = Some p) \<and>
         getSelectedProduct (snd (clearSelection (snd (selectProduct (product_id p) st)))) = None"
  using getProductById_member [OF assms]
  by (simp add: getSelectedProduct_def clearSelection_def selectProduct_def storage_defs)

text \<open>On the empty store, with the first product of the catalog.\<close>

theorem select_clear_get_witness:
  "hd products \<in> set products \<and>
   product_id (hd products) = js ''jack-premium-whisky'' \<and>
   getSelectedProduct (snd (selectProduct (js ''jack-premium-whisky'') empty_store)) =
     Some (hd products) \<and>
   getSelectedProduct
     (snd (clearSelection (snd (selectProduct (js ''jack-premium-whisky'') empty_store)))) = None"
proof -
  have i: "product_id (hd products) = js ''jack-premium-whisky''"
    by (simp add: products_def)
  show ?thesis
    using select_clear_get [OF hd_products_member, of empty_store] hd_products_member
    by (simp add: i empty_store_def)
qed

section \<open>Delivery estimate\<close>

text \<open>
  C4. For every time of the call and every draw of \<^verbatim>\<open>Math.random()\<close>, which lies in
  [0,1), \<open>daysFromNow\<close> is an integer in [MIN_DAYS, MAX_DAYS] = [2,5] when the local day
  is a weekday, and in [MIN_DAYS + 1, MAX_DAYS + 1] = [3,6] when it is a Sunday (day 0)
  or a Saturday (day 6). The date is the time of the call plus \<open>daysFromNow\<close> days, the
  date string is the rendering of that date, and the relative label is "Tomorrow" when
  \<open>daysFromNow\<close> is 1 and the number followed by " days" otherwise: all four fields come
  from the one draw.
\<close>

theorem generateETA_daysFromNow:
  assumes "0 \<le> random" and "random < 1"
  shows "MIN_DAYS = 2 \<and> MAX_DAYS = 5 \<and>
         (if getDay pf today = 0 \<or> getDay pf today = 6
          then MIN_DAYS + 1 \<le> daysFromNow (generateETA pf today random) \<and>
               daysFromNow (generateETA pf today random) \<le> MAX_DAYS + 1
          else MIN_DAYS \<le> daysFromNow (generateETA pf today random) \<and>
               daysFromNow (generateETA pf today random) \<le> MAX_DAYS) \<and>
         date (generateETA pf today random) =
           today + daysFromNow (generateETA pf today random) * 86400000 \<and>
         dateString (generateETA pf today random) =
           toLocaleDateString pf (date (generateETA pf today random)) \<and>
         relative (generateETA pf today random) =
           (if daysFromNow (generateETA pf today random) = 1 then js ''Tomorrow''
            else toString (daysFromNow (generateETA pf today random)) @ js '' days'')"
  using floor_draw [OF assms]
  by (simp add: generateETA_def Let_def WEEKEND_DELAY_def MIN_DAYS_def MAX_DAYS_def)

text \<open>
  With the draw 3/4: on Monday 2 November 2026 the estimate is 5 days, on Saturday
  7 November 2026 it is 6 days.
\<close>

theorem generateETA_daysFromNow_witness:
  "(0::real) \<le> 3 / 4 \<and> (3 / 4 :: real) < 1 \<and>
   getDay sample_platform 1793620800000 = 1 \<and>
   daysFromNow (generateETA sample_platform 1793620800000 (3 / 4)) = 5 \<and>
   date (generateETA sample_platform 1793620800000 (3 / 4)) = 1794052800000 \<and>
   relative (generateETA sample_platform 1793620800000 (3 / 4)) = js ''5 days'' \<and>
   getDay sample_platform 1794052800000 = 6 \<and>
   daysFromNow (generateETA sample_platform 1794052800000 (3 / 4)) = 6 \<and>
   MIN_DAYS + 1 \<le> daysFromNow (generateETA sample_platform 1794052800000 (3 / 4)) \<and>
   daysFromNow (generateETA sample_platform 1794052800000 (3 / 4)) \<le> MAX_DAYS + 1"
proof -
  have a: "(0::real) \<le> 3 / 4" and b: "(3 / 4 :: real) < 1"
    by simp_all
  have d1: "getDay sample_platform 1793620800000 = 1"
    and d6: "getDay sample_platform 1794052800000 = 6"
    by (simp_all add: getDay_def sample_platform_def)
  have n1: "daysFromNow (generateETA sample_platform 1793620800000 (3 / 4)) = 5"
    and n6: "daysFromNow (generateETA sample_platform 1794052800000 (3 / 4)) = 6"
    by (simp_all add: generateETA_def Let_def d1 d6 MAX_DAYS_def MIN_DAYS_def WEEKEND_DELAY_def)
  have s: "toString 5 @ js '' days'' = js ''5 days''"
    by (simp add: toString_def digits_of.simps js_def)
  note monday = generateETA_daysFromNow [OF a b, of sample_platform 1793620800000,
      unfolded d1 n1 s]
  note saturday = generateETA_daysFromNow [OF a b, of sample_platform 1794052800000,
      unfolded d6 n6]
  have date: "date (generateETA sample_platform 1793620800000 (3 / 4)) = 1794052800000"
    using monday by simp
  have rel: "relative (generateETA sample_platform 1793620800000 (3 / 4)) = js ''5 days''"
    using monday by simp
  have range: "MIN_DAYS + 1 \<le> 6 \<and> 6 \<le> MAX_DAYS + 1"
    using saturday by simp
  from a b d1 d6 n1 n6 date rel range show ?thesis
    by simp
qed

section \<open>Order processing\<close>

text \<open>
  C1. For every form that passes all seven field checks and every store in which a
  product is selected, \<open>processOrder\<close> assembles a booking whose \<open>totalAmount\<close> is the
  price of the selected product times the quantity parsed as an integer, and succeeds
  exactly when writing that booking to the store succeeds. On success it returns the
  booking, and reading the booking back from the store gives a record with the same
  id. When the write fails it returns \<open>success: false\<close> with the error "Failed to save
  order. Please try again.", although validation succeeded, and leaves the store as it
  was.
\<close>

theorem processOrder_valid_order:
  assumes sel: "getSelectedProduct st = Some p"
    and valid: "isValid (validateOrderForm formData)"
  shows "\<exists>b n. parseInt (quantity formData) = Some n \<and>
           totalAmount b = Some (price p * n) \<and>
           processOrder pf rd formData st =
             (if fst (Storage_setItem BOOKING_DATA b st)
              then (\<lparr>success = True, error = None, field_errors = None, booking = Some b\<rparr>,
                    snd (Storage_setItem BOOKING_DATA b st))
              else (\<lparr>success = False,
                     error = Some (js ''Failed to save order. Please try again.''),
                     field_errors = None, booking = None\<rparr>, st)) \<and>
           (fst (Storage_setItem BOOKING_DATA b st) \<longrightarrow>
              map_option booking_id
                (Storage_getItem BOOKING_DATA (snd (processOrder pf rd formData st))) =
              Some (booking_id b))"
proof -
  obtain n where n: "parseInt (quantity formData) = Some n"
    using valid_quantity [OF valid] by blast
  define b where "b =
    \<lparr>booking_id = generateOrderId (id_now rd) (id_random36 rd),
     createdAt = toISOString pf (created_now rd),
     status = js ''confirmed'',
     customer = validatedData (validateOrderForm formData),
     product = p,
     eta = generateETA pf (eta_today rd) (eta_random rd),
     totalAmount = js_times (Some (price p))
       (parseInt (quantity (validatedData (validateOrderForm formData))))\<rparr>"
  have q: "quantity (validatedData (validateOrderForm formData)) = quantity formData"
    by (simp add: validateOrderForm_validatedData)
  have total: "totalAmount b = Some (price p * n)"
    by (simp add: b_def q n js_times_def)
  have run: "processOrder pf rd formData st =
      (if fst (Storage_setItem BOOKING_DATA b st)
       then (\<lparr>success = True, error = None, field_errors = None, booking = Some b\<rparr>,
             snd (Storage_setItem BOOKING_DATA b st))
       else (\<lparr>success = False,
              error = Some (js ''Failed to save order. Please try again.''),
              field_errors = None, booking = None\<rparr>, st))"
    using sel valid
    by (simp add: processOrder_def Let_def b_def [symmetric] split: prod.splits)
      (auto simp: storage_defs)
  have read: "map_option booking_id
      (Storage_getItem BOOKING_DATA (snd (processOrder pf rd formData st))) = Some (booking_id b)"
    if "fst (Storage_setItem BOOKING_DATA b st)"
    using that unfolding run by (auto simp: storage_defs split: if_splits)
  from n total run read show ?thesis
    by blast
qed

text \<open>
  Two bottles of the first product, at 1299 each, come to 2598; with no room left in
  the store the same order fails with the retry message.
\<close>

theorem processOrder_valid_order_witness:
  "getSelectedProduct sample_store = Some (hd products) \<and>
   isValid (validateOrderForm sample_form) \<and>
   success (fst (processOrder sample_platform sample_readings sample_form sample_store)) \<and>
   map_option totalAmount
     (booking (fst (processOrder sample_platform sample_readings sample_form sample_store))) =
     Some (Some 2598) \<and>
   \<not> success (fst (processOrder sample_platform sample_readings sample_form
       (sample_store\<lparr>has_room := False\<rparr>))) \<and>
   error (fst (processOrder sample_platform sample_readings sample_form
       (sample_store\<lparr>has_room := False\<rparr>))) =
     Some (js ''Failed to save order. Please try again.'')"
proof -
  have sel': "getSelectedProduct (sample_store\<lparr>has_room := False\<rparr>) = Some (hd products)"
    by (simp add: sample_store_eq getSelectedProduct_def storage_defs empty_store_def)
  have q: "parseInt (quantity sample_form) = Some 2"
    by (simp add: sample_form_def parse_defs)
  have pr: "price (hd products) = 1299"
    by (simp add: products_def)
  have ok: "fst (Storage_setItem BOOKING_DATA b sample_store)" for b
    by (simp add: sample_store_eq storage_defs empty_store_def)
  have full: "\<not> fst (Storage_setItem BOOKING_DATA b (sample_store\<lparr>has_room := False\<rparr>))" for b
    by (simp add: sample_store_eq storage_defs empty_store_def)
  show ?thesis
    using processOrder_valid_order [OF sample_selection sample_form_valid,
        of sample_platform sample_readings]
      processOrder_valid_order [OF sel' sample_form_valid, of sample_platform sample_readings]
      sample_selection sample_form_valid
    by (auto simp: q pr ok full)
qed

text \<open>
  C2. For every form, when no selection is persisted \<open>processOrder\<close> fails with the
  single error "No product selected. Please select a product from the menu first." and
  attaches no field errors, whatever the form holds. The failure on an invalid form has
  another shape: it carries the mapping from fields to messages and no error string.
\<close>

theorem processOrder_no_selection:
  "(getSelectedProduct st = None \<longrightarrow>
      processOrder pf rd formData st =
        (\<lparr>success = False,
          error = Some (js ''No product selected. Please select a product from the menu first.''),
          field_errors = None, booking = None\<rparr>, st)) \<and>
   (getSelectedProduct st \<noteq> None \<and> \<not> isValid (validateOrderForm formData) \<longrightarrow>
      processOrder pf rd formData st =
        (\<lparr>success = False, error = None,
          field_errors = Some (errors (validateOrderForm formData)), booking = None\<rparr>, st))"
  by (auto simp: processOrder_def Let_def)

text \<open>
  The valid sample form on the empty store, and the blank form on the store with a
  selection.
\<close>

theorem processOrder_no_selection_witness:
  "getSelectedProduct empty_store = None \<and>
   processOrder sample_platform sample_readings sample_form empty_store =
     (\<lparr>success = False,
       error = Some (js ''No product selected. Please select a product from the menu first.''),
       field_errors = None, booking = None\<rparr>, empty_store) \<and>
   getSelectedProduct sample_store \<noteq> None \<and>
   \<not> isValid (validateOrderForm blank_form) \<and>
   processOrder sample_platform sample_readings blank_form sample_store =
     (\<lparr>success = False, error = None,
       field_errors = Some (errors (validateOrderForm blank_form)), booking = None\<rparr>,
      sample_store)"
  using processOrder_no_selection [of empty_store sample_platform sample_readings sample_form]
    processOrder_no_selection [of sample_store sample_platform sample_readings blank_form]
    empty_store_selection sample_selection blank_form_invalid
  by simp

text \<open>
  C10. For every form and store, when \<open>processOrder\<close> fails because no selection exists
  or because the form is invalid, the store after the call is the store before it. The
  stored selection is never changed, and the only write the function ever makes is the
  write of the booking, after a selection was found and validation succeeded.
\<close>

theorem processOrder_writes_only_booking:
  "(getSelectedProduct st = None \<or> \<not> isValid (validateOrderForm formData) \<longrightarrow>
      snd (processOrder pf rd formData st) = st) \<and>
   selected_product (snd (processOrder pf rd formData st)) = selected_product st \<and>
   (snd (processOrder pf rd formData st) = st \<or>
    (\<exists>b. getSelectedProduct st \<noteq> None \<and> isValid (validateOrderForm formData) \<and>
         snd (processOrder pf rd formData st) = st\<lparr>booking_data := Some b\<rparr>))"
  by (auto simp: processOrder_def Let_def storage_defs split: option.splits prod.splits)

text \<open>
  The two failing calls leave their stores alone; the valid order on the store with a
  selection writes a booking.
\<close>

theorem processOrder_writes_only_booking_witness:
  "getSelectedProduct empty_store = None \<and>
   snd (processOrder sample_platform sample_readings sample_form empty_store) = empty_store \<and>
   \<not> isValid (validateOrderForm blank_form) \<and>
   snd (processOrder sample_platform sample_readings blank_form sample_store) = sample_store \<and>
   booking_data (snd (processOrder sample_platform sample_readings sample_form sample_store))
     \<noteq> None"
proof -
  have "booking_data (snd (processOrder sample_platform sample_readings sample_form sample_store))
     \<noteq> None"
    using sample_selection sample_form_valid
    by (simp add: processOrder_def Let_def split: prod.splits)
      (simp add: sample_store_eq storage_defs empty_store_def)
  then show ?thesis
    using processOrder_writes_only_booking
        [of empty_store sample_form sample_platform sample_readings]
      processOrder_writes_only_booking
        [of sample_store blank_form sample_platform sample_readings]
      empty_store_selection blank_form_invalid
    by simp
qed

section \<open>Currency\<close>

text \<open>
  C9. \<open>formatCurrency\<close> of 1299 is the rupee sign followed by "1,299", so it contains
  "1,299"; and for every argument that is not a number other than \<open>NaN\<close>, which includes
  \<open>NaN\<close> itself, it returns the rupee sign followed by "0". The function has no failing
  branch.
\<close>

theorem formatCurrency_amounts:
  "formatCurrency (JSInteger 1299) = SYMBOL @ js ''1,299'' \<and>
   sublist (js ''1,299'') (formatCurrency (JSInteger 1299)) \<and>
   ((\<forall>i. amount \<noteq> JSInteger i) \<longrightarrow> formatCurrency amount = SYMBOL @ js ''0'')"
proof -
  have a: "formatCurrency (JSInteger 1299) = SYMBOL @ js ''1,299''"
    by (simp add: formatCurrency_def typeof_number_def toLocaleString_en_IN_def group_en_IN_def
        digits_of.simps js_def)
  have b: "sublist (js ''1,299'') (formatCurrency (JSInteger 1299))"
    unfolding a using sublist_appendI [of "js ''1,299''" SYMBOL "[]"] by simp
  have c: "formatCurrency amount = SYMBOL @ js ''0''" if "\<forall>i. amount \<noteq> JSInteger i"
    using that by (cases amount) (simp_all add: formatCurrency_def typeof_number_def)
  from a b c show ?thesis
    by blast
qed

text \<open>\<open>NaN\<close>, \<open>undefined\<close> and the string "1299" all format as the zero amount.\<close>

theorem formatCurrency_amounts_witness:
  "(\<forall>i. JSNaN \<noteq> JSInteger i) \<and> formatCurrency JSNaN = [0x20B9, 0x30] \<and>
   formatCurrency JSUndefined = [0x20B9, 0x30] \<and>
   formatCurrency (JSString (js ''1299'')) = [0x20B9, 0x30]"
  using formatCurrency_amounts [of JSNaN] formatCurrency_amounts [of JSUndefined]
    formatCurrency_amounts [of "JSString (js ''1299'')"]
  by (simp add: SYMBOL_def js_def)

end
